theory Spec2Isabelle
  imports Complex_Main "HOL-Library.Multiset"
begin

section \<open>Python values used by the memory manager\<close>

text \<open>
  A Python \<open>str\<close> is a \<open>string\<close>; each \<open>char\<close> stands for one code point below 256.
  A message of a transcript is a dictionary loaded from the chat log. The code reads only
  the keys \<open>role\<close> and \<open>content\<close>, which the chat service writes as text; a value is
  therefore either \<open>None\<close> (also what \<open>dict.get\<close> returns for an absent key) or a string.
\<close>

datatype pyval = PyNone | PyStr string

type_synonym pydict = "(string \<times> pyval) list"

datatype message = Dict pydict | NotDict

definition dict_get :: "pydict \<Rightarrow> string \<Rightarrow> pyval" where
  "dict_get d key = (case map_of d key of None \<Rightarrow> PyNone | Some v \<Rightarrow> v)"

fun truthy :: "pyval \<Rightarrow> bool" where
  "truthy PyNone = False"
| "truthy (PyStr s) = (s \<noteq> [])"

fun str_of :: "pyval \<Rightarrow> string" where
  "str_of PyNone = []"
| "str_of (PyStr s) = s"

section \<open>The bounded conversational buffer\<close>

text \<open>
  Modelled from the spec: the class \<open>ConversationBufferWindowMemory\<close>, which
  \<open>memory_manager.py\<close> imports and whose code is not part of the sources. The spec's
  Conversational Buffer is an ordered sequence of (human-turn, assistant-turn) pairs
  bounded to a window \<open>W\<close>; the oldest pairs are evicted first when a new pair would
  exceed \<open>W\<close>; a reset empties it in place, capacity unchanged.
\<close>

record window_memory =
  wm_k :: nat
  wm_pairs :: "(string \<times> string) list"

definition new_window_memory :: "nat \<Rightarrow> window_memory" where
  "new_window_memory w = \<lparr>wm_k = w, wm_pairs = []\<rparr>"

definition wm_save_context :: "window_memory \<Rightarrow> string \<Rightarrow> string \<Rightarrow> window_memory" where
  "wm_save_context m inp outp =
     (let ps = wm_pairs m @ [(inp, outp)]
      in m\<lparr>wm_pairs := drop (length ps - wm_k m) ps\<rparr>)"

definition wm_load_memory_variables :: "window_memory \<Rightarrow> (string \<times> string) list" where
  "wm_load_memory_variables m = wm_pairs m"

definition wm_clear :: "window_memory \<Rightarrow> window_memory" where
  "wm_clear m = m\<lparr>wm_pairs := []\<rparr>"

section \<open>ChatMemoryManager (core/memory\_manager.py)\<close>

text \<open>Every \<open>logger.warning\<close> call of the module, with its arguments.\<close>

datatype warning =
    NoActiveMemorySave
  | NoActiveMemoryLoad
  | NoActiveMemoryClear
  | MemoryNotFound string
  | FailedToClear string
  | InvalidMessagePair nat string
  | FailedToSavePair string

text \<open>\<open>MEMORY_CONFIG["window_size"]\<close> of config/settings.py.\<close>

definition window_size :: nat where
  "window_size = 6"

text \<open>
  The state of the manager. \<open>return_messages\<close> only selects the format in which the
  library hands out the history and is left out; \<open>warnings\<close> is the log of the module.
\<close>

record manager =
  chat_memories :: "string \<rightharpoonup> window_memory"
  current_chat_id :: "string option"
  max_memory_size :: nat
  warnings :: "warning list"

definition init_manager :: manager where
  "init_manager =
     \<lparr>chat_memories = Map.empty, current_chat_id = None,
      max_memory_size = window_size, warnings = []\<rparr>"

definition warn :: "warning \<Rightarrow> manager \<Rightarrow> manager" where
  "warn w s = s\<lparr>warnings := warnings s @ [w]\<rparr>"

text \<open>
  \<open>create_new_chat_memory\<close>: the first argument is the string that \<open>uuid.uuid4()\<close>
  yields if it is called; an empty \<open>chat_id\<close> is the falsy identifier.
\<close>

definition create_new_chat_memory :: "string \<Rightarrow> string \<Rightarrow> manager \<Rightarrow> string \<times> manager" where
  "create_new_chat_memory uuid4 chat_id s =
     (let cid = (if chat_id = [] then uuid4 else chat_id)
      in (cid, s\<lparr>chat_memories :=
                   (chat_memories s)(cid \<mapsto> new_window_memory (max_memory_size s))\<rparr>))"

text \<open>
  \<open>switch_to_chat\<close>: nothing in the body of its \<open>try\<close> can raise for a string
  identifier, so the \<open>except\<close> branch (result \<open>False\<close>) is never taken and the result
  is \<open>True\<close>.
\<close>

definition switch_to_chat :: "string \<Rightarrow> string \<Rightarrow> manager \<Rightarrow> bool \<times> manager" where
  "switch_to_chat uuid4 chat_id s =
     (let s1 = (if chat_memories s chat_id = None
                then snd (create_new_chat_memory uuid4 chat_id s) else s)
      in (True, s1\<lparr>current_chat_id := Some chat_id\<rparr>))"

definition get_current_memory :: "manager \<Rightarrow> window_memory option" where
  "get_current_memory s =
     (case current_chat_id s of
        None \<Rightarrow> None
      | Some c \<Rightarrow> if c \<noteq> [] \<and> chat_memories s c \<noteq> None then chat_memories s c else None)"

text \<open>
  The object returned by \<open>get_current_memory\<close> is the one stored in the dictionary, so a
  method called on it changes the entry of the focused chat.
\<close>

definition put_current_memory :: "window_memory \<Rightarrow> manager \<Rightarrow> manager" where
  "put_current_memory m s =
     (case current_chat_id s of
        None \<Rightarrow> s
      | Some c \<Rightarrow> s\<lparr>chat_memories := (chat_memories s)(c \<mapsto> m)\<rparr>)"

definition save_context :: "string \<Rightarrow> string \<Rightarrow> manager \<Rightarrow> bool \<times> manager" where
  "save_context inp outp s =
     (case get_current_memory s of
        None \<Rightarrow> (False, warn NoActiveMemorySave s)
      | Some m \<Rightarrow> (True, put_current_memory (wm_save_context m inp outp) s))"

definition load_memory_variables :: "manager \<Rightarrow> (string \<times> string) list \<times> manager" where
  "load_memory_variables s =
     (case get_current_memory s of
        None \<Rightarrow> ([], warn NoActiveMemoryLoad s)
      | Some m \<Rightarrow> (wm_load_memory_variables m, s))"

definition clear_current_chat_memory :: "manager \<Rightarrow> bool \<times> manager" where
  "clear_current_chat_memory s =
     (case get_current_memory s of
        None \<Rightarrow> (False, warn NoActiveMemoryClear s)
      | Some m \<Rightarrow> (True, put_current_memory (wm_clear m) s))"

definition delete_chat_memory :: "string \<Rightarrow> manager \<Rightarrow> bool \<times> manager" where
  "delete_chat_memory chat_id s =
     (if chat_memories s chat_id \<noteq> None
      then (True, s\<lparr>chat_memories := (chat_memories s)(chat_id := None),
                    current_chat_id := (if current_chat_id s = Some chat_id then None
                                        else current_chat_id s)\<rparr>)
      else (False, warn (MemoryNotFound chat_id) s))"

subsection \<open>Rehydration: load\_chat\_messages\_from\_history\<close>

definition valid_pair :: "message \<Rightarrow> message \<Rightarrow> bool" where
  "valid_pair user_msg assistant_msg =
     (case (user_msg, assistant_msg) of
        (Dict u, Dict a) \<Rightarrow>
          dict_get u ''role'' = PyStr ''user'' \<and>
          dict_get a ''role'' = PyStr ''Virtual Assistant'' \<and>
          truthy (dict_get u ''content'') \<and> truthy (dict_get a ''content'')
      | _ \<Rightarrow> False)"

definition pair_contents :: "message \<Rightarrow> message \<Rightarrow> string \<times> string" where
  "pair_contents user_msg assistant_msg =
     (case (user_msg, assistant_msg) of
        (Dict u, Dict a) \<Rightarrow> (str_of (dict_get u ''content''), str_of (dict_get a ''content''))
      | _ \<Rightarrow> ([], []))"

text \<open>
  The loop \<open>for i in range(0, len(chat_messages) - 1, 2)\<close>: the list argument is
  \<open>chat_messages[i:]\<close>, the accumulators are \<open>message_pairs\<close> and the manager (for the log).
\<close>

fun pair_loop ::
  "string \<Rightarrow> message list \<Rightarrow> nat \<Rightarrow> (string \<times> string) list \<Rightarrow> manager
     \<Rightarrow> (string \<times> string) list \<times> manager" where
  "pair_loop chat_id (user_msg # assistant_msg # rest) i message_pairs s =
     (if valid_pair user_msg assistant_msg
      then pair_loop chat_id rest (i + 2)
             (message_pairs @ [pair_contents user_msg assistant_msg]) s
      else pair_loop chat_id rest (i + 2) message_pairs
             (warn (InvalidMessagePair i chat_id) s))"
| "pair_loop chat_id [m] i message_pairs s = (message_pairs, s)"
| "pair_loop chat_id [] i message_pairs s = (message_pairs, s)"

text \<open>The loop \<open>for user_content, assistant_content in recent_pairs\<close>.\<close>

fun load_loop :: "string \<Rightarrow> (string \<times> string) list \<Rightarrow> nat \<Rightarrow> manager \<Rightarrow> nat \<times> manager" where
  "load_loop chat_id [] loaded_pairs s = (loaded_pairs, s)"
| "load_loop chat_id ((user_content, assistant_content) # rest) loaded_pairs s =
     (case save_context user_content assistant_content s of
        (True, s') \<Rightarrow> load_loop chat_id rest (loaded_pairs + 1) s'
      | (False, s') \<Rightarrow> load_loop chat_id rest loaded_pairs (warn (FailedToSavePair chat_id) s'))"

definition max_pairs :: "manager \<Rightarrow> nat" where
  "max_pairs s = max 1 (max_memory_size s div 2)"

definition recent_pairs :: "nat \<Rightarrow> (string \<times> string) list \<Rightarrow> (string \<times> string) list" where
  "recent_pairs n message_pairs =
     (if length message_pairs > n then drop (length message_pairs - n) message_pairs
      else message_pairs)"

definition load_chat_messages_from_history ::
  "string \<Rightarrow> string \<Rightarrow> message list \<Rightarrow> manager \<Rightarrow> bool \<times> manager" where
  "load_chat_messages_from_history uuid4 chat_id chat_messages s =
     (case switch_to_chat uuid4 chat_id s of
        (False, s1) \<Rightarrow> (False, s1)
      | (True, s1) \<Rightarrow>
          (let s2 = (case clear_current_chat_memory s1 of
                       (True, s') \<Rightarrow> s'
                     | (False, s') \<Rightarrow> warn (FailedToClear chat_id) s')
           in if chat_messages = [] then (True, s2)
              else (case pair_loop chat_id chat_messages 0 [] s2 of
                      (message_pairs, s3) \<Rightarrow>
                        (case load_loop chat_id (recent_pairs (max_pairs s3) message_pairs) 0 s3 of
                           (loaded_pairs, s4) \<Rightarrow> (loaded_pairs > 0, s4)))))"

subsection \<open>Sequences of manager operations\<close>

datatype mm_op =
    Create string string
  | Switch string string
  | Save string string
  | Read
  | Clear
  | Delete string
  | Rehydrate string string "message list"

fun apply_op :: "manager \<Rightarrow> mm_op \<Rightarrow> manager" where
  "apply_op s (Create uuid4 chat_id) = snd (create_new_chat_memory uuid4 chat_id s)"
| "apply_op s (Switch uuid4 chat_id) = snd (switch_to_chat uuid4 chat_id s)"
| "apply_op s (Save inp outp) = snd (save_context inp outp s)"
| "apply_op s Read = snd (load_memory_variables s)"
| "apply_op s Clear = snd (clear_current_chat_memory s)"
| "apply_op s (Delete chat_id) = snd (delete_chat_memory chat_id s)"
| "apply_op s (Rehydrate uuid4 chat_id msgs) =
     snd (load_chat_messages_from_history uuid4 chat_id msgs s)"

definition run_ops :: "mm_op list \<Rightarrow> manager" where
  "run_ops ops = foldl apply_op init_manager ops"

definition manager_inv :: "manager \<Rightarrow> bool" where
  "manager_inv s \<longleftrightarrow>
     max_memory_size s = window_size \<and>
     (\<forall>c m. chat_memories s c = Some m \<longrightarrow>
        wm_k m = window_size \<and> length (wm_pairs m) \<le> window_size)"

definition focused_state :: manager where
  "focused_state = run_ops [Switch ''u1'' ''a'', Save ''q'' ''r'', Create ''u2'' ''b'']"

section \<open>Strings\<close>

text \<open>\<open>str.isspace\<close> on the code points below 256.\<close>

definition is_space :: "char \<Rightarrow> bool" where
  "is_space c \<longleftrightarrow> (of_char c :: nat) \<in> {9, 10, 11, 12, 13, 28, 29, 30, 31, 32, 133, 160}"

definition strip :: "string \<Rightarrow> string" where
  "strip s = rev (dropWhile is_space (rev (dropWhile is_space s)))"

definition lower_char :: "char \<Rightarrow> char" where
  "lower_char c =
     (let n = (of_char c :: nat)
      in if (65 \<le> n \<and> n \<le> 90) \<or> (192 \<le> n \<and> n \<le> 222 \<and> n \<noteq> 215)
         then char_of (n + 32) else c)"

definition lower :: "string \<Rightarrow> string" where
  "lower s = map lower_char s"

fun starts_with :: "string \<Rightarrow> string \<Rightarrow> bool" where
  "starts_with s [] = True"
| "starts_with [] (p # ps) = False"
| "starts_with (c # cs) (p # ps) = (c = p \<and> starts_with cs ps)"

text \<open>\<open>needle in haystack\<close> on strings.\<close>

fun str_in :: "string \<Rightarrow> string \<Rightarrow> bool" where
  "str_in needle [] = (needle = [])"
| "str_in needle (c # cs) = (starts_with (c # cs) needle \<or> str_in needle cs)"

fun str_nat :: "nat \<Rightarrow> string" where
  "str_nat n =
     (if n < 10 then [''0123456789'' ! n]
      else str_nat (n div 10) @ [''0123456789'' ! (n mod 10)])"

fun join :: "string \<Rightarrow> string list \<Rightarrow> string" where
  "join sep [] = []"
| "join sep [x] = x"
| "join sep (x # y # rest) = x @ sep @ join sep (y # rest)"

definition newline :: char where
  "newline = CHR 0x0A"

section \<open>Context assembly: RAGEngine.\_get\_enhanced\_context (core/rag\_engine.py)\<close>

text \<open>
  Relevance scores are Python floats. The model keeps the score type \<open>'s\<close> abstract,
  linearly ordered (a NaN score is excluded), and takes the float constants and the two
  rounding operations that the function uses as a parameter: \<open>f_zero\<close> is \<open>0.0\<close> (the
  integer \<open>0\<close> that the code starts the sum with, and returns when nothing is selected,
  equals it), \<open>f_default\<close> is \<open>0.5\<close>, \<open>f_threshold\<close> is \<open>0.3\<close>, \<open>f_add\<close> is float
  addition and \<open>f_div_len x n\<close> is the float division of \<open>x\<close> by the integer \<open>n\<close>.
\<close>

record 's arith =
  f_zero :: 's
  f_default :: 's
  f_threshold :: 's
  f_add :: "'s \<Rightarrow> 's \<Rightarrow> 's"
  f_div_len :: "'s \<Rightarrow> nat \<Rightarrow> 's"

text \<open>
  A retrieved document: \<open>page_content\<close>, the \<open>metadata\<close> dictionary (an absent attribute
  reads as the empty dictionary) and the optional attribute \<open>relevance_score\<close>.
\<close>

record 's document =
  page_content :: string
  metadata :: "(string \<times> string) list"
  relevance_score :: "'s option"

record 's context_info =
  ci_context :: string
  ci_sources :: "(string \<times> string) list"
  ci_relevance_score :: 's

definition score_of :: "'s arith \<Rightarrow> 's document \<Rightarrow> 's" where
  "score_of A d = (case relevance_score d of None \<Rightarrow> f_default A | Some x \<Rightarrow> x)"

text \<open>
  \<open>sorted(xs, key=key, reverse=True)\<close>: Python reverses the list, sorts it stably in
  ascending order and reverses the result, so that equal keys keep their original order.
\<close>

definition py_sorted_reverse :: "('a \<Rightarrow> 'k::linorder) \<Rightarrow> 'a list \<Rightarrow> 'a list" where
  "py_sorted_reverse key xs = rev (sort_key key (rev xs))"

definition no_information_text :: string where
  "no_information_text =
     ''No specific service information found for this query. Please try rephrasing your question or contact a government helpline number.''"

definition low_relevance_text :: string where
  "low_relevance_text = ''No highly relevant BSK service information found.''"

definition max_docs :: nat where
  "max_docs = 5"

definition sorted_docs :: "('s::linorder) arith \<Rightarrow> 's document list \<Rightarrow> 's document list" where
  "sorted_docs A documents = py_sorted_reverse (score_of A) documents"

definition filtered_docs :: "('s::linorder) arith \<Rightarrow> 's document list \<Rightarrow> 's document list" where
  "filtered_docs A documents =
     filter (\<lambda>doc. score_of A doc \<ge> f_threshold A) (sorted_docs A documents)"

definition selected_docs :: "('s::linorder) arith \<Rightarrow> 's document list \<Rightarrow> 's document list" where
  "selected_docs A documents = take max_docs (filtered_docs A documents)"

definition source_of :: "nat \<Rightarrow> 's document \<Rightarrow> string" where
  "source_of i doc =
     (case map_of (metadata doc) ''filename'' of
        None \<Rightarrow> ''Document '' @ str_nat i
      | Some f \<Rightarrow> f)"

definition page_of :: "'s document \<Rightarrow> string" where
  "page_of doc = (case map_of (metadata doc) ''page'' of None \<Rightarrow> ''Unknown'' | Some p \<Rightarrow> p)"

text \<open>
  The loop \<open>for i, doc in enumerate(selected_docs, 1)\<close> with its three accumulators
  \<open>context_parts\<close>, \<open>sources\<close> and \<open>total_relevance\<close>.
\<close>

fun format_loop ::
  "'s arith \<Rightarrow> 's document list \<Rightarrow> nat \<Rightarrow> string list \<Rightarrow> (string \<times> string) list \<Rightarrow> 's
     \<Rightarrow> string list \<times> (string \<times> string) list \<times> 's" where
  "format_loop A [] i context_parts srcs total_relevance =
     (context_parts, srcs, total_relevance)"
| "format_loop A (doc # rest) i context_parts srcs total_relevance =
     (let source = source_of i doc;
          page = page_of doc;
          formatted_content =
            ''Source '' @ str_nat i @ '' (from '' @ source @ ''):'' @ [newline] @ page_content doc
      in format_loop A rest (i + 1) (context_parts @ [formatted_content])
           (srcs @ [(source, page)]) (f_add A total_relevance (score_of A doc)))"

text \<open>
  \<open>_get_enhanced_context\<close>. With documents of this type nothing in the body of its
  \<open>try\<close> raises, so the fallback of the \<open>except\<close> branch does not occur. The
  argument \<open>query\<close> and \<open>chat_id\<close> are only written to the log.
\<close>

definition get_enhanced_context :: "('s::linorder) arith \<Rightarrow> 's document list \<Rightarrow> 's context_info" where
  "get_enhanced_context A documents =
     (if documents = []
      then \<lparr>ci_context = no_information_text, ci_sources = [], ci_relevance_score = f_zero A\<rparr>
      else
        (let sel = selected_docs A documents
         in case format_loop A sel 1 [] [] (f_zero A) of
              (context_parts, srcs, total_relevance) \<Rightarrow>
                \<lparr>ci_context = (if context_parts \<noteq> [] then join [newline, newline] context_parts
                                else low_relevance_text),
                 ci_sources = srcs,
                 ci_relevance_score = (if sel \<noteq> [] then f_div_len A total_relevance (length sel)
                                       else f_zero A)\<rparr>))"

text \<open>Exact rational arithmetic, for evaluating the functions on concrete documents.\<close>

definition exact_arith :: "rat arith" where
  "exact_arith =
     \<lparr>f_zero = 0, f_default = 1 / 2, f_threshold = 3 / 10,
      f_add = (\<lambda>a b. a + b), f_div_len = (\<lambda>x n. x / of_nat n)\<rparr>"

definition scored_doc :: "string \<Rightarrow> string \<Rightarrow> rat option \<Rightarrow> rat document" where
  "scored_doc name text sc =
     \<lparr>page_content = text, metadata = [(''filename'', name)], relevance_score = sc\<rparr>"

section \<open>Query orchestration: RAGEngine.process\_query (core/rag\_engine.py)\<close>

text \<open>\<open>_validate_query\<close>: \<open>Inl\<close> carries the reason, \<open>Inr\<close> the processed query.\<close>

definition validate_query :: "string \<Rightarrow> string + string" where
  "validate_query query =
     (if query = [] \<or> strip query = [] then Inl ''Empty query''
      else if length (strip query) < 1 then Inl ''Query too short''
      else if length query > 2000 then Inl ''Query too long''
      else Inr (strip query))"

text \<open>The input that the chain hands to the prompt template and the model.\<close>

record prompt =
  p_context :: string
  p_history :: "(string \<times> string) list"
  p_input :: string

text \<open>The calls that leave the process: the retriever and the streamed completion.\<close>

datatype effect = RetrieverInvoke string | LlmStream prompt

datatype rag_warning =
    InvalidQuery string
  | FailedToSwitch string
  | TimeoutReached
  | FailedToSaveContext "string option"
  | EmptyResponse

text \<open>
  What the surroundings of one call decide: the string \<open>uuid.uuid4()\<close> would yield, whether
  \<open>_initialize_chain\<close> produces a chain (the vector store module is not part of the
  sources), what the retriever returns for a query (\<open>None\<close>: it raises), and what the model
  streams for a prompt: the chunks, each with the value that
  \<open>time.time() - start_time\<close> has when it is read after that chunk, and the exception text
  if the stream raises once the chunks are used up.
\<close>

record 's environment =
  env_uuid4 :: string
  env_initialize_chain :: bool
  env_retrieve :: "string \<Rightarrow> 's document list option"
  env_llm :: "prompt \<Rightarrow> (string \<times> rat) list \<times> string option"

definition retrieval_error_text :: string where
  "retrieval_error_text = ''Error retrieving information. Please try again.''"

text \<open>The inner function \<open>get_context_and_history\<close> of \<open>_create_enhanced_rag_chain\<close>.\<close>

definition get_context_and_history ::
  "('s::linorder) arith \<Rightarrow> 's environment \<Rightarrow> string \<Rightarrow> string option \<Rightarrow> manager
     \<Rightarrow> prompt \<times> manager" where
  "get_context_and_history A env query chat_id s =
     (case env_retrieve env query of
        None \<Rightarrow> (\<lparr>p_context = retrieval_error_text, p_history = [], p_input = query\<rparr>, s)
      | Some documents \<Rightarrow>
          (let context_info = get_enhanced_context A documents;
               s1 = (case chat_id of
                       None \<Rightarrow> s
                     | Some c \<Rightarrow> if c \<noteq> [] then snd (switch_to_chat (env_uuid4 env) c s) else s)
           in case load_memory_variables s1 of
                (history, s2) \<Rightarrow>
                  (\<lparr>p_context = ci_context context_info, p_history = history,
                    p_input = query\<rparr>, s2)))"

text \<open>
  The loop \<open>for chunk in self.chain.stream(chain_input)\<close>. The result is
  \<open>full_response\<close>, the fragments yielded, the number of items taken from the stream and
  whether the loop was left by the timeout \<open>break\<close>.
\<close>

fun stream_loop ::
  "(string \<times> rat) list \<Rightarrow> string \<Rightarrow> string list \<Rightarrow> nat \<Rightarrow> string \<times> string list \<times> nat \<times> bool" where
  "stream_loop [] full_response yielded taken = (full_response, yielded, taken, False)"
| "stream_loop ((chunk, elapsed) # rest) full_response yielded taken =
     (if chunk \<noteq> []
      then (if elapsed > 60
            then (full_response @ chunk, yielded @ [chunk], taken + 1, True)
            else stream_loop rest (full_response @ chunk) (yielded @ [chunk]) (taken + 1))
      else stream_loop rest full_response yielded (taken + 1))"

definition error_fragment :: "string \<Rightarrow> string" where
  "error_fragment e =
     (if str_in ''rate limit'' (lower e)
      then ''Rate limit exceeded. Please wait a moment and try again.''
      else if str_in ''timeout'' (lower e)
      then ''Request timed out. Please try with a shorter query.''
      else if str_in ''context'' (lower e)
      then ''Context processing error. Please ensure documents are properly loaded.''
      else ''An error occurred while processing your query. Please try again.'')"

definition unavailable_text :: string where
  "unavailable_text =
     ''RAG system is currently unavailable. Please ensure documents are loaded and try again.''"

record pq_result =
  fragments :: "string list"
  effects :: "effect list"
  taken_from_stream :: nat
  rag_warnings :: "rag_warning list"
  mm :: manager
  chain_after :: bool

text \<open>
  \<open>process_query\<close>, run until the generator is exhausted. \<open>chain\<close> says whether
  \<open>self.chain\<close> is set when the call starts; \<open>s\<close> is the global memory manager.
\<close>

definition process_query ::
  "('s::linorder) arith \<Rightarrow> 's environment \<Rightarrow> bool \<Rightarrow> string \<Rightarrow> string option \<Rightarrow> manager
     \<Rightarrow> pq_result" where
  "process_query A env chain query chat_id s =
     (case validate_query query of
        Inl reason \<Rightarrow>
          \<lparr>fragments = [''Invalid query: '' @ reason], effects = [], taken_from_stream = 0,
           rag_warnings = [InvalidQuery reason], mm = s, chain_after = chain\<rparr>
      | Inr processed_query \<Rightarrow>
          (let (s1, w1) =
                 (case chat_id of
                    None \<Rightarrow> (s, [])
                  | Some c \<Rightarrow>
                      if c \<noteq> []
                      then (case switch_to_chat (env_uuid4 env) c s of
                              (True, s') \<Rightarrow> (s', [])
                            | (False, s') \<Rightarrow> (s', [FailedToSwitch c]))
                      else (s, []));
               chain1 = (if chain then True else env_initialize_chain env)
           in if \<not> chain1
              then \<lparr>fragments = [unavailable_text], effects = [], taken_from_stream = 0,
                    rag_warnings = w1, mm = s1, chain_after = chain1\<rparr>
              else
                (case get_context_and_history A env processed_query chat_id s1 of
                   (pr, s2) \<Rightarrow>
                     (case env_llm env pr of
                        (chunks, fault) \<Rightarrow>
                          (case stream_loop chunks [] [] 0 of
                             (full_response, yielded, taken, timed_out) \<Rightarrow>
                               (let effs = [RetrieverInvoke processed_query, LlmStream pr];
                                    w2 = w1 @ (if timed_out then [TimeoutReached] else [])
                                in case (if timed_out then None else fault) of
                                     Some e \<Rightarrow>
                                       \<lparr>fragments = yielded @ [error_fragment e], effects = effs,
                                        taken_from_stream = taken, rag_warnings = w2,
                                        mm = s2, chain_after = chain1\<rparr>
                                   | None \<Rightarrow>
                                       (if strip full_response \<noteq> []
                                        then (case save_context processed_query full_response s2 of
                                                (True, s3) \<Rightarrow>
                                                  \<lparr>fragments = yielded, effects = effs,
                                                   taken_from_stream = taken, rag_warnings = w2,
                                                   mm = s3, chain_after = chain1\<rparr>
                                              | (False, s3) \<Rightarrow>
                                                  \<lparr>fragments = yielded, effects = effs,
                                                   taken_from_stream = taken,
                                                   rag_warnings = w2 @ [FailedToSaveContext chat_id],
                                                   mm = s3, chain_after = chain1\<rparr>)
                                        else \<lparr>fragments = yielded, effects = effs,
                                              taken_from_stream = taken,
                                              rag_warnings = w2 @ [EmptyResponse],
                                              mm = s2, chain_after = chain1\<rparr>)))))))"

definition no_retrieval :: "rat environment" where
  "no_retrieval =
     \<lparr>env_uuid4 = ''u0'', env_initialize_chain = True,
      env_retrieve = (\<lambda>q. Some []),
      env_llm = (\<lambda>p. ([(''Hello'', 1), ('' there'', 2)], None))\<rparr>"

definition six_commits :: "mm_op list" where
  "six_commits = [Switch ''u1'' ''a'', Create ''u2'' ''b'', Save ''q1'' ''r1'', Save ''q2'' ''r2'', Save ''q3'' ''r3'',
     Save ''q4'' ''r4'', Save ''q5'' ''r5'', Save ''q6'' ''r6'']"

subsection \<open>Transcripts, as the rehydration claims describe them\<close>

text \<open>
  The transcript cut into the pairs at the indices \<open>(0, 1), (2, 3), ...\<close>; a message left
  over at the end belongs to no pair.
\<close>

fun aligned_pairs :: "message list \<Rightarrow> (message \<times> message) list" where
  "aligned_pairs (u # a # rest) = (u, a) # aligned_pairs rest"
| "aligned_pairs [m] = []"
| "aligned_pairs [] = []"

text \<open>The contents of the valid pairs, in order: every malformed pair is left out.\<close>

definition valid_pairs :: "message list \<Rightarrow> (string \<times> string) list" where
  "valid_pairs msgs =
     map (\<lambda>(u, a). pair_contents u a) (filter (\<lambda>(u, a). valid_pair u a) (aligned_pairs msgs))"

text \<open>One warning for every malformed pair, carrying the index of its first message.\<close>

fun pair_warnings :: "string \<Rightarrow> nat \<Rightarrow> (message \<times> message) list \<Rightarrow> warning list" where
  "pair_warnings chat_id i [] = []"
| "pair_warnings chat_id i ((u, a) # rest) =
     (if valid_pair u a then pair_warnings chat_id (i + 2) rest
      else InvalidMessagePair i chat_id # pair_warnings chat_id (i + 2) rest)"

text \<open>A message that is a dictionary with the given role tag and the given text as content.\<close>

definition is_turn :: "string \<Rightarrow> string \<Rightarrow> message \<Rightarrow> bool" where
  "is_turn role text m =
     (case m of
        Dict d \<Rightarrow> dict_get d ''role'' = PyStr role \<and> dict_get d ''content'' = PyStr text
      | NotDict \<Rightarrow> False)"

text \<open>
  \<open>well_formed_transcript ps msgs\<close>: the transcript \<open>msgs\<close> consists of exactly the
  exchanges \<open>ps\<close>, each a message tagged \<open>user\<close> followed by one tagged
  \<open>Virtual Assistant\<close> (the tag that the code checks), both with non-empty content.
\<close>

fun well_formed_transcript :: "(string \<times> string) list \<Rightarrow> message list \<Rightarrow> bool" where
  "well_formed_transcript [] [] = True"
| "well_formed_transcript ((q, r) # ps) (u # a # rest) =
     (is_turn ''user'' q u \<and> is_turn ''Virtual Assistant'' r a \<and> q \<noteq> [] \<and> r \<noteq> [] \<and>
      well_formed_transcript ps rest)"
| "well_formed_transcript ps msgs = False"

definition stored_message :: "string \<Rightarrow> string \<Rightarrow> message" where
  "stored_message role text = Dict [(''role'', PyStr role), (''content'', PyStr text)]"

definition transcript_of :: "string \<Rightarrow> (string \<times> string) list \<Rightarrow> message list" where
  "transcript_of assistant_tag ps =
     concat (map (\<lambda>(q, r). [stored_message ''user'' q, stored_message assistant_tag r]) ps)"

definition seven_exchanges :: "(string \<times> string) list" where
  "seven_exchanges =
     [(''q1'', ''r1''), (''q2'', ''r2''), (''q3'', ''r3''), (''q4'', ''r4''),
      (''q5'', ''r5''), (''q6'', ''r6''), (''q7'', ''r7'')]"

definition gapped_exchanges :: "(string \<times> string) list" where
  "gapped_exchanges = [(''q1'', ''r1''), (''q2'', ''''), (''q3'', ''r3'')]"

definition lone_message :: "message list" where
  "lone_message = [stored_message ''user'' ''q1'']"

definition open_exchange :: "message list" where
  "open_exchange =
     [stored_message ''user'' ''q1'', stored_message ''Virtual Assistant'' ''r1'',
      stored_message ''user'' ''q2'']"

text \<open>The citation that the loop records for the document at rank \<open>i\<close>.\<close>

definition citation :: "nat \<Rightarrow> 's document \<Rightarrow> string \<times> string" where
  "citation i d = (source_of i d, page_of d)"

definition low_scored :: "rat document list" where
  "low_scored = [scored_doc ''a.pdf'' ''alpha'' (Some (1 / 10)), scored_doc ''b.pdf'' ''beta'' (Some (29 / 100))]"

definition seven_docs :: "rat document list" where
  "seven_docs =
     [scored_doc ''a.pdf'' ''alpha'' (Some (4 / 10)), scored_doc ''b.pdf'' ''beta'' (Some (9 / 10)),
      scored_doc ''c.pdf'' ''gamma'' None, scored_doc ''d.pdf'' ''delta'' (Some (2 / 10)),
      scored_doc ''e.pdf'' ''epsilon'' (Some (9 / 10)), scored_doc ''f.pdf'' ''zeta'' (Some (1 / 2)),
      scored_doc ''g.pdf'' ''eta'' (Some (3 / 10))]"




section \<open>Invariant of the memory manager\<close>

lemmas mm_defs = init_manager_def switch_to_chat_def create_new_chat_memory_def
  save_context_def get_current_memory_def put_current_memory_def wm_save_context_def
  new_window_memory_def window_size_def Let_def warn_def delete_chat_memory_def
  load_memory_variables_def clear_current_chat_memory_def wm_clear_def
  wm_load_memory_variables_def

lemma inv_init: "manager_inv init_manager"
  by (simp add: manager_inv_def init_manager_def)

lemma inv_warn: "manager_inv s \<Longrightarrow> manager_inv (warn w s)"
  by (simp add: manager_inv_def warn_def)

lemma inv_create: "manager_inv s \<Longrightarrow> manager_inv (snd (create_new_chat_memory u c s))"
  by (simp add: manager_inv_def create_new_chat_memory_def new_window_memory_def Let_def)

lemma inv_focus: "manager_inv s \<Longrightarrow> manager_inv (s\<lparr>current_chat_id := x\<rparr>)"
  by (simp add: manager_inv_def)

lemma inv_switch: "manager_inv s \<Longrightarrow> manager_inv (snd (switch_to_chat u c s))"
  using inv_create [of s u c] by (simp add: switch_to_chat_def Let_def inv_focus)

lemma inv_put:
  "manager_inv s \<Longrightarrow> wm_k m = window_size \<Longrightarrow> length (wm_pairs m) \<le> window_size
     \<Longrightarrow> manager_inv (put_current_memory m s)"
  by (simp add: manager_inv_def put_current_memory_def split: option.splits)

lemma current_memory_in:
  "get_current_memory s = Some m \<Longrightarrow> \<exists>c. current_chat_id s = Some c \<and> c \<noteq> [] \<and> chat_memories s c = Some m"
  by (auto simp: get_current_memory_def split: option.splits if_splits)

lemma inv_current:
  "manager_inv s \<Longrightarrow> get_current_memory s = Some m
     \<Longrightarrow> wm_k m = window_size \<and> length (wm_pairs m) \<le> window_size"
  using current_memory_in [of s m] by (auto simp: manager_inv_def)

lemma inv_save: "manager_inv s \<Longrightarrow> manager_inv (snd (save_context i out s))"
proof (cases "get_current_memory s")
  case None
  assume "manager_inv s"
  with None show ?thesis by (simp add: save_context_def inv_warn)
next
  case (Some m)
  assume inv: "manager_inv s"
  with Some have km: "wm_k m = window_size" "length (wm_pairs m) \<le> window_size"
    using inv_current by blast+
  then have "wm_k (wm_save_context m i out) = window_size"
    "length (wm_pairs (wm_save_context m i out)) \<le> window_size"
    by (simp_all add: wm_save_context_def Let_def)
  with inv Some show ?thesis by (simp add: save_context_def inv_put)
qed

lemma inv_read: "manager_inv s \<Longrightarrow> manager_inv (snd (load_memory_variables s))"
  by (simp add: load_memory_variables_def inv_warn split: option.splits)

lemma inv_clear: "manager_inv s \<Longrightarrow> manager_inv (snd (clear_current_chat_memory s))"
proof (cases "get_current_memory s")
  case None
  assume "manager_inv s"
  with None show ?thesis by (simp add: clear_current_chat_memory_def inv_warn)
next
  case (Some m)
  assume inv: "manager_inv s"
  with Some have "wm_k m = window_size" using inv_current by blast
  with inv Some show ?thesis by (simp add: clear_current_chat_memory_def inv_put wm_clear_def)
qed

lemma inv_delete: "manager_inv s \<Longrightarrow> manager_inv (snd (delete_chat_memory c s))"
  by (auto simp: manager_inv_def delete_chat_memory_def warn_def split: if_splits)

lemma inv_pair_loop: "manager_inv s \<Longrightarrow> manager_inv (snd (pair_loop c msgs i mp s))"
  by (induction c msgs i mp s rule: pair_loop.induct) (simp_all add: inv_warn)

lemma inv_load_loop: "manager_inv s \<Longrightarrow> manager_inv (snd (load_loop c ps n s))"
proof (induction c ps n s rule: load_loop.induct)
  case (1 chat_id loaded_pairs s)
  then show ?case by simp
next
  case (2 chat_id u a rest loaded_pairs s)
  obtain r s' where sc: "save_context u a s = (r, s')" by (cases "save_context u a s")
  with "2.prems" have inv': "manager_inv s'" using inv_save [of s u a] by simp
  show ?case
  proof (cases r)
    case True
    with sc inv' "2.IH"(1) show ?thesis by simp
  next
    case False
    with sc inv' "2.IH"(2) show ?thesis by (simp add: inv_warn)
  qed
qed

lemma inv_rehydrate:
  assumes "manager_inv s"
  shows "manager_inv (snd (load_chat_messages_from_history u c msgs s))"
proof -
  obtain s1 where s1: "switch_to_chat u c s = (True, s1)"
    by (simp add: switch_to_chat_def Let_def)
  with assms have i1: "manager_inv s1" using inv_switch [of s u c] by simp
  define s2 where "s2 = (case clear_current_chat_memory s1 of
                       (True, s') \<Rightarrow> s'
                     | (False, s') \<Rightarrow> warn (FailedToClear c) s')"
  have i2: "manager_inv s2"
    using inv_clear [OF i1] by (auto simp: s2_def inv_warn split: prod.splits bool.splits)
  obtain mp s3 where pl: "pair_loop c msgs 0 [] s2 = (mp, s3)" by (cases "pair_loop c msgs 0 [] s2")
  with i2 have i3: "manager_inv s3" using inv_pair_loop [of s2 c msgs 0 "[]"] by simp
  obtain n s4 where ll: "load_loop c (recent_pairs (max_pairs s3) mp) 0 s3 = (n, s4)"
    by (cases "load_loop c (recent_pairs (max_pairs s3) mp) 0 s3")
  with i3 have i4: "manager_inv s4" using inv_load_loop [of s3 c "recent_pairs (max_pairs s3) mp" 0] by simp
  show ?thesis
    using s1 pl ll i2 i4 by (simp add: load_chat_messages_from_history_def s2_def [symmetric])
qed

lemma inv_apply_op: "manager_inv s \<Longrightarrow> manager_inv (apply_op s op)"
  by (cases op) (simp_all add: inv_create inv_switch inv_save inv_read inv_clear inv_delete inv_rehydrate)

lemma inv_foldl: "manager_inv s \<Longrightarrow> manager_inv (foldl apply_op s ops)"
  by (induction ops arbitrary: s) (simp_all add: inv_apply_op)

lemma inv_run_ops: "manager_inv (run_ops ops)"
  by (simp add: run_ops_def inv_foldl inv_init)

lemma save_context_fifo:
  assumes "manager_inv s" "get_current_memory s = Some m"
  shows "get_current_memory (snd (save_context inp outp s)) =
           Some (m\<lparr>wm_pairs := (if length (wm_pairs m) < window_size
                                then wm_pairs m @ [(inp, outp)]
                                else tl (wm_pairs m) @ [(inp, outp)])\<rparr>)"
proof -
  from assms have km: "wm_k m = window_size" "length (wm_pairs m) \<le> window_size"
    using inv_current by blast+
  obtain c where c: "current_chat_id s = Some c" "c \<noteq> []" "chat_memories s c = Some m"
    using current_memory_in [OF assms(2)] by blast
  have "wm_save_context m inp outp = m\<lparr>wm_pairs := (if length (wm_pairs m) < window_size
                                then wm_pairs m @ [(inp, outp)]
                                else tl (wm_pairs m) @ [(inp, outp)])\<rparr>"
    using km by (cases "wm_pairs m") (auto simp: wm_save_context_def Let_def window_size_def)
  with assms(2) c show ?thesis
    by (simp add: save_context_def put_current_memory_def get_current_memory_def)
qed

lemma save_context_others:
  "Some c \<noteq> current_chat_id s \<Longrightarrow> chat_memories (snd (save_context inp outp s)) c = chat_memories s c"
  by (auto simp: save_context_def put_current_memory_def warn_def split: option.splits)

section \<open>The window bound\<close>

text \<open>
  C1. After any sequence of manager operations (commits among them), every buffer of the
  registry holds at most \<open>window_size\<close> pairs. A commit on a focused buffer succeeds and
  appends the pair, dropping the oldest pair first when the buffer is already full; it
  changes no buffer other than the focused one.
\<close>

theorem buffer_bounded_fifo:
  "(\<forall>c m. chat_memories (run_ops ops) c = Some m \<longrightarrow> length (wm_pairs m) \<le> window_size) \<and>
   (\<forall>m. get_current_memory (run_ops ops) = Some m \<longrightarrow>
      fst (save_context inp outp (run_ops ops)) \<and>
      get_current_memory (snd (save_context inp outp (run_ops ops))) =
        Some (m\<lparr>wm_pairs := (if length (wm_pairs m) < window_size
                             then wm_pairs m @ [(inp, outp)]
                             else tl (wm_pairs m) @ [(inp, outp)])\<rparr>)) \<and>
   (\<forall>c. Some c \<noteq> current_chat_id (run_ops ops) \<longrightarrow>
      chat_memories (snd (save_context inp outp (run_ops ops))) c = chat_memories (run_ops ops) c)"
proof (intro conjI allI impI)
  fix c m assume "chat_memories (run_ops ops) c = Some m"
  with inv_run_ops [of ops] show "length (wm_pairs m) \<le> window_size"
    by (simp add: manager_inv_def)
next
  fix m assume "get_current_memory (run_ops ops) = Some m"
  then show "fst (save_context inp outp (run_ops ops))" by (simp add: save_context_def)
next
  fix m assume "get_current_memory (run_ops ops) = Some m"
  then show "get_current_memory (snd (save_context inp outp (run_ops ops))) =
        Some (m\<lparr>wm_pairs := (if length (wm_pairs m) < window_size
                             then wm_pairs m @ [(inp, outp)]
                             else tl (wm_pairs m) @ [(inp, outp)])\<rparr>)"
    using save_context_fifo [OF inv_run_ops] by blast
next
  fix c assume "Some c \<noteq> current_chat_id (run_ops ops)"
  then show "chat_memories (snd (save_context inp outp (run_ops ops))) c = chat_memories (run_ops ops) c"
    by (rule save_context_others)
qed


theorem buffer_bounded_fifo_witness:
  "chat_memories (run_ops six_commits) ''a'' =
     Some \<lparr>wm_k = 6, wm_pairs = [(''q1'', ''r1''), (''q2'', ''r2''), (''q3'', ''r3''),
            (''q4'', ''r4''), (''q5'', ''r5''), (''q6'', ''r6'')]\<rparr> \<and>
   get_current_memory (run_ops six_commits) = chat_memories (run_ops six_commits) ''a'' \<and>
   fst (save_context ''q7'' ''r7'' (run_ops six_commits)) \<and>
   get_current_memory (snd (save_context ''q7'' ''r7'' (run_ops six_commits))) =
     Some \<lparr>wm_k = 6, wm_pairs = [(''q2'', ''r2''), (''q3'', ''r3''),
            (''q4'', ''r4''), (''q5'', ''r5''), (''q6'', ''r6''), (''q7'', ''r7'')]\<rparr> \<and>
   Some ''b'' \<noteq> current_chat_id (run_ops six_commits) \<and>
   chat_memories (snd (save_context ''q7'' ''r7'' (run_ops six_commits))) ''b'' =
     chat_memories (run_ops six_commits) ''b''"
  using buffer_bounded_fifo [of six_commits "''q7''" "''r7''"]
  by (simp add: six_commits_def run_ops_def mm_defs)

section \<open>Deleting a session\<close>

text \<open>
  C8. \<open>delete_chat_memory\<close> on an identifier that has a buffer reports success, removes
  that buffer and leaves every other buffer alone; if the identifier was focused the focus
  is cleared and a following read returns the empty history; otherwise the focus is kept.
  On an identifier without a buffer it reports failure and leaves the registry and the
  focus as they were.
\<close>

theorem delete_chat_memory_correct:
  "(chat_memories s chat_id \<noteq> None \<longrightarrow>
      fst (delete_chat_memory chat_id s) \<and>
      chat_memories (snd (delete_chat_memory chat_id s)) chat_id = None \<and>
      (\<forall>c. c \<noteq> chat_id \<longrightarrow>
         chat_memories (snd (delete_chat_memory chat_id s)) c = chat_memories s c) \<and>
      (current_chat_id s = Some chat_id \<longrightarrow>
         current_chat_id (snd (delete_chat_memory chat_id s)) = None \<and>
         fst (load_memory_variables (snd (delete_chat_memory chat_id s))) = []) \<and>
      (current_chat_id s \<noteq> Some chat_id \<longrightarrow>
         current_chat_id (snd (delete_chat_memory chat_id s)) = current_chat_id s)) \<and>
   (chat_memories s chat_id = None \<longrightarrow>
      \<not> fst (delete_chat_memory chat_id s) \<and>
      chat_memories (snd (delete_chat_memory chat_id s)) = chat_memories s \<and>
      current_chat_id (snd (delete_chat_memory chat_id s)) = current_chat_id s)"
  by (auto simp: delete_chat_memory_def load_memory_variables_def get_current_memory_def
      warn_def)

theorem delete_chat_memory_correct_witness:
  "chat_memories focused_state ''a'' \<noteq> None \<and> current_chat_id focused_state = Some ''a'' \<and>
   fst (delete_chat_memory ''a'' focused_state) \<and>
   chat_memories (snd (delete_chat_memory ''a'' focused_state)) ''a'' = None \<and>
   chat_memories (snd (delete_chat_memory ''a'' focused_state)) ''b'' =
     chat_memories focused_state ''b'' \<and>
   current_chat_id (snd (delete_chat_memory ''a'' focused_state)) = None \<and>
   fst (load_memory_variables (snd (delete_chat_memory ''a'' focused_state))) = [] \<and>
   chat_memories focused_state ''zz'' = None \<and>
   \<not> fst (delete_chat_memory ''zz'' focused_state) \<and>
   current_chat_id (snd (delete_chat_memory ''zz'' focused_state)) = Some ''a''"
  using delete_chat_memory_correct [of focused_state "''a''"]
    delete_chat_memory_correct [of focused_state "''zz''"]
  by (simp add: focused_state_def run_ops_def mm_defs)

section \<open>Rehydration\<close>

lemma pair_loop_eq:
  "pair_loop c msgs i mp s =
     (mp @ valid_pairs msgs,
      s\<lparr>warnings := warnings s @ pair_warnings c i (aligned_pairs msgs)\<rparr>)"
  by (induction c msgs i mp s rule: pair_loop.induct)
    (simp_all add: valid_pairs_def warn_def)

lemma drop_window:
  "drop (length (drop (length xs - w) xs @ ys) - w) (drop (length xs - w) xs @ ys) =
     drop (length (xs @ ys) - w) (xs @ ys)"
  by (cases "length xs \<le> w") (auto simp: add.commute)

lemma wm_pairs_update:
  "m\<lparr>wm_pairs := xs\<rparr> = \<lparr>wm_k = wm_k m, wm_pairs = xs\<rparr>"
  by (cases m) simp

lemma put_current_memory_same:
  "get_current_memory s = Some m \<Longrightarrow> put_current_memory m s = s"
  by (auto simp: put_current_memory_def get_current_memory_def fun_upd_idem
      split: option.splits if_splits)

lemma save_context_focused:
  assumes "get_current_memory s = Some m"
  shows "save_context inp outp s = (True, put_current_memory (wm_save_context m inp outp) s)"
    and "get_current_memory (put_current_memory m' s) = Some m'"
    and "put_current_memory m'' (put_current_memory m' s) = put_current_memory m'' s"
  using assms
  by (auto simp: save_context_def put_current_memory_def get_current_memory_def
      split: option.splits if_splits)

lemma load_loop_focused:
  "get_current_memory s = Some m \<Longrightarrow> length (wm_pairs m) \<le> wm_k m \<Longrightarrow>
     load_loop c ps n s =
       (n + length ps,
        put_current_memory
          (m\<lparr>wm_pairs := drop (length (wm_pairs m @ ps) - wm_k m) (wm_pairs m @ ps)\<rparr>) s)"
proof (induction ps arbitrary: n s m)
  case Nil
  then show ?case by (simp add: put_current_memory_same)
next
  case (Cons p ps)
  obtain u a where p: "p = (u, a)" by (cases p)
  let ?m1 = "wm_save_context m u a"
  let ?s1 = "put_current_memory ?m1 s"
  have sc: "save_context u a s = (True, ?s1)"
    using Cons.prems(1) by (rule save_context_focused(1))
  have g1: "get_current_memory ?s1 = Some ?m1"
    using Cons.prems(1) by (rule save_context_focused(2))
  have k1: "wm_k ?m1 = wm_k m"
    and p1: "wm_pairs ?m1 = drop (length (wm_pairs m @ [(u, a)]) - wm_k m) (wm_pairs m @ [(u, a)])"
    by (simp_all add: wm_save_context_def Let_def)
  have dw: "drop (length (wm_pairs ?m1 @ ps) - wm_k m) (wm_pairs ?m1 @ ps) =
      drop (length (wm_pairs m @ (u, a) # ps) - wm_k m) (wm_pairs m @ (u, a) # ps)"
    unfolding p1 using drop_window [of "wm_pairs m @ [(u, a)]" "wm_k m" ps] by simp
  have upd: "?m1\<lparr>wm_pairs := xs\<rparr> = m\<lparr>wm_pairs := xs\<rparr>" for xs
    by (simp add: wm_save_context_def Let_def)
  have l1: "length (wm_pairs ?m1) \<le> wm_k ?m1"
    unfolding k1 p1 by simp
  have step: "load_loop c (p # ps) n s = load_loop c ps (n + 1) ?s1"
    by (simp add: p sc)
  have ih: "load_loop c ps (n + 1) ?s1 =
      (n + 1 + length ps,
       put_current_memory
         (?m1\<lparr>wm_pairs := drop (length (wm_pairs ?m1 @ ps) - wm_k ?m1) (wm_pairs ?m1 @ ps)\<rparr>)
         ?s1)"
    by (rule Cons.IH [OF g1 l1])
  have fold: "put_current_memory
         (?m1\<lparr>wm_pairs := drop (length (wm_pairs ?m1 @ ps) - wm_k ?m1) (wm_pairs ?m1 @ ps)\<rparr>)
         ?s1 =
       put_current_memory
         (m\<lparr>wm_pairs := drop (length (wm_pairs m @ p # ps) - wm_k m) (wm_pairs m @ p # ps)\<rparr>) s"
    unfolding k1 dw upd p by (rule save_context_focused(3) [OF Cons.prems(1)])
  show ?case unfolding step ih fold by simp
qed

lemma switch_focus:
  assumes "c \<noteq> []"
  shows "\<exists>m. get_current_memory (snd (switch_to_chat u c s)) = Some m \<and>
           current_chat_id (snd (switch_to_chat u c s)) = Some c \<and>
           warnings (snd (switch_to_chat u c s)) = warnings s \<and>
           max_memory_size (snd (switch_to_chat u c s)) = max_memory_size s \<and>
           fst (switch_to_chat u c s) \<and>
           wm_k m = (case chat_memories s c of None \<Rightarrow> max_memory_size s | Some m0 \<Rightarrow> wm_k m0)"
  using assms
  by (auto simp: switch_to_chat_def create_new_chat_memory_def get_current_memory_def Let_def
      new_window_memory_def)

text \<open>
  What rehydration computes for a non-empty session identifier: the buffer of the session
  is replaced by the most recent \<open>max_pairs\<close> valid pairs, one warning is logged per
  malformed pair, and the result is \<open>True\<close> exactly for an empty transcript or a transcript
  with at least one valid pair.
\<close>

lemma rehydrate_result:
  assumes c: "c \<noteq> []"
  shows "\<exists>k. load_chat_messages_from_history u c msgs s =
           (msgs = [] \<or> valid_pairs msgs \<noteq> [],
            (snd (switch_to_chat u c s))
              \<lparr>chat_memories := (chat_memories (snd (switch_to_chat u c s)))
                 (c \<mapsto> \<lparr>wm_k = k,
                         wm_pairs = drop (length (recent_pairs (max_pairs s) (valid_pairs msgs)) - k)
                                      (recent_pairs (max_pairs s) (valid_pairs msgs))\<rparr>),
               warnings := warnings s @ pair_warnings c 0 (aligned_pairs msgs)\<rparr>) \<and>
         k = (case chat_memories s c of None \<Rightarrow> max_memory_size s | Some m0 \<Rightarrow> wm_k m0)"
proof -
  define s1 where "s1 = snd (switch_to_chat u c s)"
  obtain m where m: "get_current_memory s1 = Some m" "current_chat_id s1 = Some c"
    "warnings s1 = warnings s" "max_memory_size s1 = max_memory_size s"
    "wm_k m = (case chat_memories s c of None \<Rightarrow> max_memory_size s | Some m0 \<Rightarrow> wm_k m0)"
    and sw: "switch_to_chat u c s = (True, s1)"
    using switch_focus [OF c, of u s] unfolding s1_def
    by (metis prod.collapse)
  define s2 where "s2 = put_current_memory (wm_clear m) s1"
  have cl: "clear_current_chat_memory s1 = (True, s2)"
    using m(1) by (simp add: clear_current_chat_memory_def s2_def)
  have g2: "get_current_memory s2 = Some (wm_clear m)"
    unfolding s2_def using m(1) by (rule save_context_focused(2))
  have s2_eq: "s2 = s1\<lparr>chat_memories := (chat_memories s1)(c \<mapsto> wm_clear m)\<rparr>"
    using m(2) by (simp add: s2_def put_current_memory_def)
  define s3 where "s3 = s2\<lparr>warnings := warnings s2 @ pair_warnings c 0 (aligned_pairs msgs)\<rparr>"
  have pl: "pair_loop c msgs 0 [] s2 = (valid_pairs msgs, s3)"
    by (simp add: pair_loop_eq s3_def)
  have "get_current_memory s3 = get_current_memory s2"
    by (simp add: s3_def get_current_memory_def split: option.splits)
  with g2 have g3: "get_current_memory s3 = Some (wm_clear m)" by simp
  have mp3: "max_pairs s3 = max_pairs s"
    using m(4) by (simp add: max_pairs_def s3_def s2_eq)
  let ?rp = "recent_pairs (max_pairs s) (valid_pairs msgs)"
  have ll: "load_loop c ?rp 0 s3 =
      (length ?rp, put_current_memory
          (wm_clear m\<lparr>wm_pairs := drop (length ?rp - wm_k m) ?rp\<rparr>) s3)"
    using load_loop_focused [OF g3, of c ?rp 0] by (simp add: wm_clear_def)
  have len: "(0 < length ?rp) = (valid_pairs msgs \<noteq> [])"
    by (auto simp: recent_pairs_def max_pairs_def)
  have fin: "put_current_memory (wm_clear m\<lparr>wm_pairs := drop (length ?rp - wm_k m) ?rp\<rparr>) s3 =
      s1\<lparr>chat_memories := (chat_memories s1)
                 (c \<mapsto> \<lparr>wm_k = wm_k m, wm_pairs = drop (length ?rp - wm_k m) ?rp\<rparr>),
         warnings := warnings s @ pair_warnings c 0 (aligned_pairs msgs)\<rparr>"
    using m(2,3) by (simp add: put_current_memory_def s3_def s2_eq wm_clear_def wm_pairs_update)
  have empty_case: "msgs = [] \<Longrightarrow> s2 =
      s1\<lparr>chat_memories := (chat_memories s1)
                 (c \<mapsto> \<lparr>wm_k = wm_k m, wm_pairs = drop (length ?rp - wm_k m) ?rp\<rparr>),
         warnings := warnings s @ pair_warnings c 0 (aligned_pairs msgs)\<rparr>"
    using m(3) by (simp add: s2_eq wm_clear_def valid_pairs_def recent_pairs_def wm_pairs_update)
  have "load_chat_messages_from_history u c msgs s =
           (msgs = [] \<or> valid_pairs msgs \<noteq> [],
            s1\<lparr>chat_memories := (chat_memories s1)
                 (c \<mapsto> \<lparr>wm_k = wm_k m, wm_pairs = drop (length ?rp - wm_k m) ?rp\<rparr>),
               warnings := warnings s @ pair_warnings c 0 (aligned_pairs msgs)\<rparr>)"
  proof (cases "msgs = []")
    case True
    then show ?thesis
      using sw cl empty_case by (simp add: load_chat_messages_from_history_def)
  next
    case False
    then show ?thesis
      using sw cl pl ll mp3 len fin by (simp add: load_chat_messages_from_history_def)
  qed
  then show ?thesis using m(5) unfolding s1_def by blast
qed

lemma well_formed_valid_pairs: "well_formed_transcript ps msgs \<Longrightarrow> valid_pairs msgs = ps"
  by (induction ps msgs rule: well_formed_transcript.induct)
    (auto simp: valid_pairs_def valid_pair_def pair_contents_def is_turn_def
      split: message.splits)

lemma max_pairs_run_ops: "max_pairs (run_ops ops) = 3"
  using inv_run_ops [of ops] by (simp add: manager_inv_def max_pairs_def window_size_def)

lemma capacity_run_ops:
  "(case chat_memories (run_ops ops) c of None \<Rightarrow> max_memory_size (run_ops ops)
    | Some m0 \<Rightarrow> wm_k m0) = window_size"
  using inv_run_ops [of ops] by (simp add: manager_inv_def split: option.splits)

lemma recent_pairs_length: "length (recent_pairs 3 xs) \<le> 3"
  by (simp add: recent_pairs_def)

lemma rehydrate_reachable:
  assumes "c \<noteq> []"
  shows "load_chat_messages_from_history u c msgs (run_ops ops) =
           (msgs = [] \<or> valid_pairs msgs \<noteq> [],
            (snd (switch_to_chat u c (run_ops ops)))
              \<lparr>chat_memories := (chat_memories (snd (switch_to_chat u c (run_ops ops))))
                 (c \<mapsto> \<lparr>wm_k = window_size, wm_pairs = recent_pairs 3 (valid_pairs msgs)\<rparr>),
               warnings := warnings (run_ops ops) @ pair_warnings c 0 (aligned_pairs msgs)\<rparr>)"
proof -
  have "length (recent_pairs 3 (valid_pairs msgs)) - window_size = 0"
    using recent_pairs_length [of "valid_pairs msgs"] by (simp add: window_size_def)
  then show ?thesis
    using rehydrate_result [OF assms, of u msgs "run_ops ops"]
    by (simp add: max_pairs_run_ops capacity_run_ops)
qed

lemma switch_others:
  "c \<noteq> [] \<Longrightarrow> c' \<noteq> c \<Longrightarrow> chat_memories (snd (switch_to_chat u c s)) c' = chat_memories s c'"
  by (simp add: switch_to_chat_def create_new_chat_memory_def Let_def)

text \<open>
  C2 (as amended). For a transcript of \<open>N > 3\<close> well-formed exchanges (tags \<open>user\<close> and
  \<open>Virtual Assistant\<close>, non-empty contents), loaded for a non-empty session identifier
  in any reachable state of the manager, rehydration reports success and leaves in the
  session's buffer exactly the most recent \<open>3 = max 1 (window_size div 2)\<close> exchanges,
  oldest first.
\<close>

theorem rehydrate_keeps_recent_half_window:
  assumes "well_formed_transcript ps msgs" and "length ps > 3" and "c \<noteq> []"
  shows "fst (load_chat_messages_from_history u c msgs (run_ops ops)) \<and>
         chat_memories (snd (load_chat_messages_from_history u c msgs (run_ops ops))) c =
           Some \<lparr>wm_k = window_size, wm_pairs = drop (length ps - 3) ps\<rparr> \<and>
         max 1 (window_size div 2) = (3::nat)"
proof -
  have vp: "valid_pairs msgs = ps" using assms(1) by (rule well_formed_valid_pairs)
  have "ps \<noteq> []" using assms(2) by auto
  then show ?thesis
    using assms(2) unfolding rehydrate_reachable [OF assms(3)] vp
    by (simp add: recent_pairs_def window_size_def)
qed

theorem rehydrate_keeps_recent_half_window_witness:
  "well_formed_transcript seven_exchanges (transcript_of ''Virtual Assistant'' seven_exchanges) \<and>
   length seven_exchanges > 3 \<and>
   fst (load_chat_messages_from_history ''u0'' ''c1''
          (transcript_of ''Virtual Assistant'' seven_exchanges) (run_ops six_commits)) \<and>
   chat_memories (snd (load_chat_messages_from_history ''u0'' ''c1''
          (transcript_of ''Virtual Assistant'' seven_exchanges) (run_ops six_commits))) ''c1'' =
     Some \<lparr>wm_k = 6, wm_pairs = [(''q5'', ''r5''), (''q6'', ''r6''), (''q7'', ''r7'')]\<rparr>"
proof -
  have wf: "well_formed_transcript seven_exchanges
              (transcript_of ''Virtual Assistant'' seven_exchanges)"
    by (simp add: seven_exchanges_def transcript_of_def stored_message_def is_turn_def
        dict_get_def)
  have len: "length seven_exchanges > 3" by (simp add: seven_exchanges_def)
  have ne: "''c1'' \<noteq> []" by simp
  show ?thesis
    using rehydrate_keeps_recent_half_window [OF wf len ne, of "''u0''" six_commits] wf len
    by (simp add: seven_exchanges_def window_size_def)
qed

text \<open>
  The claim C2 as stated fails: seven well-formed exchanges are more than the window of
  six, and rehydration into the fresh manager keeps the last three, not the last six.
\<close>

theorem rehydrate_window_counterexample:
  "chat_memories (snd (load_chat_messages_from_history ''u0'' ''c1''
      (transcript_of ''Virtual Assistant'' seven_exchanges) init_manager)) ''c1'' =
     Some \<lparr>wm_k = 6, wm_pairs = [(''q5'', ''r5''), (''q6'', ''r6''), (''q7'', ''r7'')]\<rparr> \<and>
   [(''q5'', ''r5''), (''q6'', ''r6''), (''q7'', ''r7'')] \<noteq>
     drop (length seven_exchanges - window_size) seven_exchanges"
  by (simp add: load_chat_messages_from_history_def seven_exchanges_def transcript_of_def
      stored_message_def valid_pair_def pair_contents_def dict_get_def recent_pairs_def
      max_pairs_def mm_defs)

text \<open>
  C7 (as amended). For a non-empty session identifier and any reachable state of the
  manager: a pair is valid when its first message is tagged \<open>user\<close>, its second
  \<open>Virtual Assistant\<close> and both contents are non-empty. Rehydration logs one warning for
  every malformed pair and skips it; the buffer of the session then holds the most recent
  three of the valid pairs, in order; no other buffer changes. The call reports success
  exactly when the transcript is empty or at least one pair was loaded.
\<close>

theorem rehydrate_skips_malformed_pairs:
  assumes "c \<noteq> []"
  shows "fst (load_chat_messages_from_history u c msgs (run_ops ops)) =
           (msgs = [] \<or> valid_pairs msgs \<noteq> []) \<and>
         chat_memories (snd (load_chat_messages_from_history u c msgs (run_ops ops))) c =
           Some \<lparr>wm_k = window_size, wm_pairs = recent_pairs 3 (valid_pairs msgs)\<rparr> \<and>
         warnings (snd (load_chat_messages_from_history u c msgs (run_ops ops))) =
           warnings (run_ops ops) @ pair_warnings c 0 (aligned_pairs msgs) \<and>
         (\<forall>c'. c' \<noteq> c \<longrightarrow>
            chat_memories (snd (load_chat_messages_from_history u c msgs (run_ops ops))) c' =
              chat_memories (run_ops ops) c')"
  unfolding rehydrate_reachable [OF assms] using assms by (simp add: switch_others)

theorem rehydrate_skips_malformed_pairs_witness:
  "''c1'' \<noteq> [] \<and>
   fst (load_chat_messages_from_history ''u0'' ''c1''
          (transcript_of ''Virtual Assistant'' gapped_exchanges) (run_ops six_commits)) \<and>
   chat_memories (snd (load_chat_messages_from_history ''u0'' ''c1''
          (transcript_of ''Virtual Assistant'' gapped_exchanges) (run_ops six_commits))) ''c1'' =
     Some \<lparr>wm_k = 6, wm_pairs = [(''q1'', ''r1''), (''q3'', ''r3'')]\<rparr> \<and>
   warnings (snd (load_chat_messages_from_history ''u0'' ''c1''
          (transcript_of ''Virtual Assistant'' gapped_exchanges) (run_ops six_commits))) =
     warnings (run_ops six_commits) @ [InvalidMessagePair 2 ''c1''] \<and>
   chat_memories (snd (load_chat_messages_from_history ''u0'' ''c1''
          (transcript_of ''Virtual Assistant'' gapped_exchanges) (run_ops six_commits))) ''a'' =
     chat_memories (run_ops six_commits) ''a''"
proof -
  have ne: "''c1'' \<noteq> []" by simp
  show ?thesis
    using rehydrate_skips_malformed_pairs [OF ne, of "''u0''"
        "transcript_of ''Virtual Assistant'' gapped_exchanges" six_commits]
    by (simp add: gapped_exchanges_def transcript_of_def stored_message_def valid_pairs_def
        valid_pair_def pair_contents_def dict_get_def recent_pairs_def window_size_def)
qed

text \<open>
  The claim C7 as stated fails on a transcript tagged as the Session Store contract of the
  spec says (\<open>user\<close>, \<open>assistant\<close>): the two valid exchanges around the malformed one are
  not loaded, and the call reports failure.
\<close>

theorem rehydrate_role_tag_counterexample:
  "\<not> fst (load_chat_messages_from_history ''u0'' ''c1''
          (transcript_of ''assistant'' gapped_exchanges) init_manager) \<and>
   chat_memories (snd (load_chat_messages_from_history ''u0'' ''c1''
          (transcript_of ''assistant'' gapped_exchanges) init_manager)) ''c1'' =
     Some \<lparr>wm_k = 6, wm_pairs = []\<rparr>"
  by (simp add: load_chat_messages_from_history_def gapped_exchanges_def transcript_of_def
      stored_message_def valid_pair_def pair_contents_def dict_get_def recent_pairs_def
      max_pairs_def mm_defs)

lemma aligned_pairs_butlast:
  "odd (length msgs) \<Longrightarrow> aligned_pairs (butlast msgs) = aligned_pairs msgs"
  by (induction msgs rule: aligned_pairs.induct) auto

lemma pair_loop_butlast:
  "odd (length msgs) \<Longrightarrow> pair_loop c (butlast msgs) i mp s = pair_loop c msgs i mp s"
  by (simp add: pair_loop_eq valid_pairs_def aligned_pairs_butlast)

text \<open>
  C10 (as amended). For a transcript with an odd number of messages the final, unpaired
  message is never loaded and produces no warning: the manager (buffers, focus, log) ends
  in the same state as for the transcript without that message. With three or more
  messages the reported result is the same as well. A transcript of a single message
  reports failure, where the empty transcript reports success.
\<close>

theorem rehydrate_ignores_unpaired_message:
  assumes "odd (length msgs)"
  shows "snd (load_chat_messages_from_history u c msgs s) =
           snd (load_chat_messages_from_history u c (butlast msgs) s) \<and>
         (length msgs \<ge> 3 \<longrightarrow>
            fst (load_chat_messages_from_history u c msgs s) =
              fst (load_chat_messages_from_history u c (butlast msgs) s)) \<and>
         (length msgs = 1 \<longrightarrow>
            \<not> fst (load_chat_messages_from_history u c msgs s) \<and>
            fst (load_chat_messages_from_history u c (butlast msgs) s))"
proof -
  obtain s1 where sw: "switch_to_chat u c s = (True, s1)"
    by (simp add: switch_to_chat_def Let_def)
  define s2 where "s2 = (case clear_current_chat_memory s1 of
                       (True, s') \<Rightarrow> s'
                     | (False, s') \<Rightarrow> warn (FailedToClear c) s')"
  have ne: "msgs \<noteq> []" using assms by auto
  show ?thesis
  proof (cases "length msgs = 1")
    case True
    then obtain m where m: "msgs = [m]" by (cases msgs) auto
    show ?thesis
      using sw by (simp add: m load_chat_messages_from_history_def recent_pairs_def)
  next
    case False
    with assms have "length msgs \<ge> 3" by presburger
    then have "butlast msgs \<noteq> []" by (cases msgs) auto
    then show ?thesis
      using sw ne False
      by (simp add: load_chat_messages_from_history_def s2_def [symmetric]
          pair_loop_butlast [OF assms])
  qed
qed

theorem rehydrate_ignores_unpaired_message_witness:
  "odd (length open_exchange) \<and> length open_exchange \<ge> 3 \<and>
   load_chat_messages_from_history ''u0'' ''c1'' open_exchange init_manager =
     load_chat_messages_from_history ''u0'' ''c1'' (butlast open_exchange) init_manager \<and>
   fst (load_chat_messages_from_history ''u0'' ''c1'' open_exchange init_manager) \<and>
   chat_memories (snd (load_chat_messages_from_history ''u0'' ''c1'' open_exchange
      init_manager)) ''c1'' = Some \<lparr>wm_k = 6, wm_pairs = [(''q1'', ''r1'')]\<rparr> \<and>
   warnings (snd (load_chat_messages_from_history ''u0'' ''c1'' open_exchange
      init_manager)) = [] \<and>
   odd (length lone_message) \<and> length lone_message = 1 \<and>
   snd (load_chat_messages_from_history ''u0'' ''c1'' lone_message init_manager) =
     snd (load_chat_messages_from_history ''u0'' ''c1'' (butlast lone_message) init_manager) \<and>
   \<not> fst (load_chat_messages_from_history ''u0'' ''c1'' lone_message init_manager)"
proof -
  have o: "odd (length open_exchange)" by (simp add: open_exchange_def)
  have o1: "odd (length lone_message)" and l1: "length lone_message = 1"
    by (simp_all add: lone_message_def)
  have ev: "fst (load_chat_messages_from_history ''u0'' ''c1'' open_exchange init_manager) \<and>
   chat_memories (snd (load_chat_messages_from_history ''u0'' ''c1'' open_exchange
      init_manager)) ''c1'' = Some \<lparr>wm_k = 6, wm_pairs = [(''q1'', ''r1'')]\<rparr> \<and>
   warnings (snd (load_chat_messages_from_history ''u0'' ''c1'' open_exchange
      init_manager)) = []"
    by (simp add: load_chat_messages_from_history_def open_exchange_def
      stored_message_def valid_pair_def pair_contents_def dict_get_def recent_pairs_def
      max_pairs_def mm_defs)
  have len: "length open_exchange \<ge> 3" by (simp add: open_exchange_def)
  show ?thesis
    using rehydrate_ignores_unpaired_message [OF o, of "''u0''" "''c1''" init_manager]
      rehydrate_ignores_unpaired_message [OF o1, of "''u0''" "''c1''" init_manager] o len ev o1 l1
    by (simp add: prod_eq_iff)
qed

text \<open>
  The claim C10 as stated fails for a transcript of one message: the unpaired message
  alone turns the result of the call from success (empty transcript) into failure.
\<close>

theorem rehydrate_lone_message_counterexample:
  "\<not> fst (load_chat_messages_from_history ''u0'' ''c1'' lone_message init_manager) \<and>
   fst (load_chat_messages_from_history ''u0'' ''c1'' (butlast lone_message) init_manager)"
  by (simp add: load_chat_messages_from_history_def lone_message_def recent_pairs_def
      mm_defs)

section \<open>Creating a session\<close>

text \<open>
  C9 (as amended). \<open>create_new_chat_memory\<close> returns the identifier it was given, or the
  identifier minted by \<open>uuid4\<close> when it was given none, and always binds that identifier
  to a fresh empty buffer of capacity \<open>max_memory_size\<close>, replacing a buffer the identifier
  may already have; the focus and the log do not change. The guard "only if absent" is in
  \<open>switch_to_chat\<close>: focusing an identifier that has a buffer keeps the registry as it
  is, and focusing one that has none creates the empty buffer. Both always return.
\<close>

theorem create_new_chat_memory_fresh:
  "fst (create_new_chat_memory u c s) = (if c = [] then u else c) \<and>
   chat_memories (snd (create_new_chat_memory u c s)) =
     (chat_memories s)(fst (create_new_chat_memory u c s) \<mapsto>
        \<lparr>wm_k = max_memory_size s, wm_pairs = []\<rparr>) \<and>
   current_chat_id (snd (create_new_chat_memory u c s)) = current_chat_id s \<and>
   warnings (snd (create_new_chat_memory u c s)) = warnings s \<and>
   fst (switch_to_chat u c s) \<and>
   current_chat_id (snd (switch_to_chat u c s)) = Some c \<and>
   (chat_memories s c \<noteq> None \<longrightarrow>
      chat_memories (snd (switch_to_chat u c s)) = chat_memories s) \<and>
   (chat_memories s c = None \<longrightarrow>
      chat_memories (snd (switch_to_chat u c s)) =
        (chat_memories s)((if c = [] then u else c) \<mapsto>
           \<lparr>wm_k = max_memory_size s, wm_pairs = []\<rparr>))"
  by (auto simp: create_new_chat_memory_def switch_to_chat_def new_window_memory_def Let_def)

theorem create_new_chat_memory_fresh_witness:
  "fst (create_new_chat_memory ''u3'' [] focused_state) = ''u3'' \<and>
   chat_memories (snd (create_new_chat_memory ''u3'' [] focused_state)) ''u3'' =
     Some \<lparr>wm_k = 6, wm_pairs = []\<rparr> \<and>
   chat_memories focused_state ''a'' \<noteq> None \<and>
   chat_memories (snd (switch_to_chat ''u3'' ''a'' focused_state)) = chat_memories focused_state \<and>
   chat_memories focused_state ''c'' = None \<and>
   chat_memories (snd (switch_to_chat ''u3'' ''c'' focused_state)) ''c'' =
     Some \<lparr>wm_k = 6, wm_pairs = []\<rparr>"
  using create_new_chat_memory_fresh [of "''u3''" "[]" focused_state]
    create_new_chat_memory_fresh [of "''u3''" "''a''" focused_state]
    create_new_chat_memory_fresh [of "''u3''" "''c''" focused_state]
  by (simp add: focused_state_def run_ops_def mm_defs)

text \<open>
  The claim C9 as stated fails: called on an identifier that has a buffer with one
  exchange, \<open>create_new_chat_memory\<close> leaves that identifier with an empty buffer.
\<close>

theorem create_new_chat_memory_counterexample:
  "chat_memories focused_state ''a'' = Some \<lparr>wm_k = 6, wm_pairs = [(''q'', ''r'')]\<rparr> \<and>
   chat_memories (snd (create_new_chat_memory ''u3'' ''a'' focused_state)) ''a'' =
     Some \<lparr>wm_k = 6, wm_pairs = []\<rparr>"
  by (simp add: focused_state_def run_ops_def mm_defs)

section \<open>Context assembly\<close>

lemma sorted_docs_mset: "mset (sorted_docs A documents) = mset documents"
  by (simp add: sorted_docs_def py_sorted_reverse_def)

lemma sorted_docs_descending:
  "sorted_wrt (\<lambda>a b. score_of A a \<ge> score_of A b) (sorted_docs A documents)"
proof -
  have "sorted (map (score_of A) (sort_key (score_of A) (rev documents)))"
    by (rule sorted_sort_key)
  then have "sorted_wrt (\<lambda>a b. score_of A a \<le> score_of A b)
               (sort_key (score_of A) (rev documents))"
    by (simp add: sorted_wrt_map)
  then show ?thesis
    by (simp add: sorted_docs_def py_sorted_reverse_def sorted_wrt_rev)
qed

lemma sorted_docs_stable:
  "filter (\<lambda>d. score_of A d = x) (sorted_docs A documents) =
     filter (\<lambda>d. score_of A d = x) documents"
proof -
  have "filter (\<lambda>d. score_of A d = x) (sorted_docs A documents) =
          rev (filter (\<lambda>d. score_of A d = x) (sort_key (score_of A) (rev documents)))"
    by (simp add: sorted_docs_def py_sorted_reverse_def rev_filter)
  also have "\<dots> = rev (filter (\<lambda>d. score_of A d = x) (rev documents))"
    by (simp only: sort_key_stable)
  also have "\<dots> = filter (\<lambda>d. score_of A d = x) documents"
    by (simp add: rev_filter)
  finally show ?thesis .
qed

lemma format_loop_eq:
  "format_loop A ds i parts srcs tot =
     (parts @ map (\<lambda>(j, d). ''Source '' @ str_nat j @ '' (from '' @ source_of j d @ ''):'' @
                       [newline] @ page_content d) (zip [i..<i + length ds] ds),
      srcs @ map (\<lambda>(j, d). citation j d) (zip [i..<i + length ds] ds),
      foldl (f_add A) tot (map (score_of A) ds))"
proof (induction ds arbitrary: i parts srcs tot)
  case Nil
  then show ?case by simp
next
  case (Cons d ds)
  have "[i..<i + length (d # ds)] = i # [i + 1..<i + 1 + length ds]"
    by (subst upt_rec) simp
  then show ?case
    by (simp add: Cons.IH Let_def citation_def del: upt_Suc)
qed

lemma get_enhanced_context_eq:
  "documents \<noteq> [] \<Longrightarrow>
     ci_sources (get_enhanced_context A documents) =
       map (\<lambda>(j, d). citation j d)
         (zip [1..<1 + length (selected_docs A documents)] (selected_docs A documents)) \<and>
     ci_relevance_score (get_enhanced_context A documents) =
       (if selected_docs A documents = [] then f_zero A
        else f_div_len A
               (foldl (f_add A) (f_zero A) (map (score_of A) (selected_docs A documents)))
               (length (selected_docs A documents))) \<and>
     (selected_docs A documents = [] \<longrightarrow>
        ci_context (get_enhanced_context A documents) = low_relevance_text)"
  by (simp add: get_enhanced_context_def format_loop_eq Let_def)

lemma foldl_add_sum: "foldl (\<lambda>a b. a + b) (a::rat) xs = a + sum_list xs"
  by (induction xs arbitrary: a) (simp_all add: add.assoc)

text \<open>
  C3. On the empty document list the function returns the fixed "no information" text,
  no sources and score zero. On a non-empty list whose scores are all below the threshold
  it returns the "low relevance" text, which is a different text, again with no sources
  and score zero.
\<close>

theorem get_enhanced_context_nothing_relevant:
  "get_enhanced_context A [] =
     \<lparr>ci_context = no_information_text, ci_sources = [], ci_relevance_score = f_zero A\<rparr> \<and>
   (documents \<noteq> [] \<and> (\<forall>d \<in> set documents. score_of A d < f_threshold A) \<longrightarrow>
      get_enhanced_context A documents =
        \<lparr>ci_context = low_relevance_text, ci_sources = [], ci_relevance_score = f_zero A\<rparr>) \<and>
   low_relevance_text \<noteq> no_information_text"
proof (intro conjI impI)
  show "get_enhanced_context A [] =
     \<lparr>ci_context = no_information_text, ci_sources = [], ci_relevance_score = f_zero A\<rparr>"
    by (simp add: get_enhanced_context_def)
next
  assume a: "documents \<noteq> [] \<and> (\<forall>d \<in> set documents. score_of A d < f_threshold A)"
  have "set (sorted_docs A documents) = set documents"
    by (simp add: sorted_docs_def py_sorted_reverse_def)
  with a have "filtered_docs A documents = []"
    by (auto simp: filtered_docs_def filter_empty_conv)
  then have "selected_docs A documents = []"
    by (simp add: selected_docs_def)
  with a show "get_enhanced_context A documents =
        \<lparr>ci_context = low_relevance_text, ci_sources = [], ci_relevance_score = f_zero A\<rparr>"
    by (simp add: get_enhanced_context_def)
next
  show "low_relevance_text \<noteq> no_information_text"
    by (simp add: low_relevance_text_def no_information_text_def)
qed

theorem get_enhanced_context_nothing_relevant_witness:
  "low_scored \<noteq> [] \<and> map (score_of exact_arith) low_scored = [1 / 10, 29 / 100] \<and>
   f_threshold exact_arith = 3 / 10 \<and>
   get_enhanced_context exact_arith low_scored =
     \<lparr>ci_context = ''No highly relevant BSK service information found.'', ci_sources = [],
      ci_relevance_score = 0\<rparr>"
  using get_enhanced_context_nothing_relevant [of exact_arith low_scored]
  by (simp add: low_scored_def scored_doc_def exact_arith_def score_of_def low_relevance_text_def)

text \<open>
  C4. For a non-empty document list: \<open>sorted_docs\<close> is a rearrangement of the documents
  in descending order of score (a missing score counting as the default) in which
  documents of equal score keep their retrieval order; the selected documents are the
  first \<open>max_docs = 5\<close> of those at or above the threshold, in that order; the citations
  returned are those of the selected documents, ranked from 1; and the relevance returned
  is zero when nothing is selected and otherwise the sum of the selected scores, added up
  in order, divided by their number. With exact arithmetic that is their arithmetic mean.
\<close>

theorem get_enhanced_context_ranks_filters_caps:
  assumes "documents \<noteq> []"
  shows "mset (sorted_docs A documents) = mset documents \<and>
         sorted_wrt (\<lambda>a b. score_of A a \<ge> score_of A b) (sorted_docs A documents) \<and>
         (\<forall>x. filter (\<lambda>d. score_of A d = x) (sorted_docs A documents) =
               filter (\<lambda>d. score_of A d = x) documents) \<and>
         (\<forall>d. relevance_score d = None \<longrightarrow> score_of A d = f_default A) \<and>
         selected_docs A documents =
           take 5 (filter (\<lambda>d. \<not> score_of A d < f_threshold A) (sorted_docs A documents)) \<and>
         length (selected_docs A documents) \<le> 5 \<and>
         ci_sources (get_enhanced_context A documents) =
           map (\<lambda>(j, d). citation j d)
             (zip [1..<1 + length (selected_docs A documents)] (selected_docs A documents)) \<and>
         ci_relevance_score (get_enhanced_context A documents) =
           (if selected_docs A documents = [] then f_zero A
            else f_div_len A
                   (foldl (f_add A) (f_zero A) (map (score_of A) (selected_docs A documents)))
                   (length (selected_docs A documents))) \<and>
         ci_relevance_score (get_enhanced_context exact_arith ds) =
           (if selected_docs exact_arith ds = [] then 0
            else sum_list (map (score_of exact_arith) (selected_docs exact_arith ds)) /
                   of_nat (length (selected_docs exact_arith ds)))"
proof -
  have sel: "selected_docs A documents =
           take 5 (filter (\<lambda>d. \<not> score_of A d < f_threshold A) (sorted_docs A documents))"
    by (simp add: selected_docs_def filtered_docs_def max_docs_def not_less)
  have len: "length (selected_docs A documents) \<le> 5"
    unfolding sel by simp
  have dflt: "\<forall>d. relevance_score d = None \<longrightarrow> score_of A d = f_default A"
    by (simp add: score_of_def)
  have exact: "ci_relevance_score (get_enhanced_context exact_arith ds) =
           (if selected_docs exact_arith ds = [] then 0
            else sum_list (map (score_of exact_arith) (selected_docs exact_arith ds)) /
                   of_nat (length (selected_docs exact_arith ds)))"
  proof (cases "ds = []")
    case True
    then show ?thesis
      by (simp add: get_enhanced_context_def selected_docs_def filtered_docs_def
          sorted_docs_def py_sorted_reverse_def exact_arith_def)
  next
    case False
    have ops: "f_add exact_arith = (\<lambda>a b. a + b)" "f_zero exact_arith = 0"
      "f_div_len exact_arith = (\<lambda>x n. x / of_nat n)"
      by (simp_all add: exact_arith_def)
    show ?thesis
      using get_enhanced_context_eq [OF False, of exact_arith]
      by (simp add: ops foldl_add_sum)
  qed
  show ?thesis
    using get_enhanced_context_eq [OF assms, of A] sel len dflt exact
    by (simp add: sorted_docs_mset sorted_docs_descending sorted_docs_stable)
qed

theorem get_enhanced_context_ranks_filters_caps_witness:
  "seven_docs \<noteq> [] \<and>
   map page_content (sorted_docs exact_arith seven_docs) =
     [''beta'', ''epsilon'', ''gamma'', ''zeta'', ''alpha'', ''eta'', ''delta''] \<and>
   map page_content (selected_docs exact_arith seven_docs) =
     [''beta'', ''epsilon'', ''gamma'', ''zeta'', ''alpha''] \<and>
   ci_sources (get_enhanced_context exact_arith seven_docs) =
     [(''b.pdf'', ''Unknown''), (''e.pdf'', ''Unknown''), (''c.pdf'', ''Unknown''),
      (''f.pdf'', ''Unknown''), (''a.pdf'', ''Unknown'')] \<and>
   ci_relevance_score (get_enhanced_context exact_arith seven_docs) = 16 / 25"
proof -
  have ne: "seven_docs \<noteq> []" by (simp add: seven_docs_def)
  have ops: "f_threshold exact_arith = 3 / 10" "f_default exact_arith = 1 / 2"
    "f_zero exact_arith = 0"
    by (simp_all add: exact_arith_def)
  have srt: "sorted_docs exact_arith seven_docs =
      [scored_doc ''b.pdf'' ''beta'' (Some (9 / 10)), scored_doc ''e.pdf'' ''epsilon'' (Some (9 / 10)),
       scored_doc ''c.pdf'' ''gamma'' None, scored_doc ''f.pdf'' ''zeta'' (Some (1 / 2)),
       scored_doc ''a.pdf'' ''alpha'' (Some (4 / 10)), scored_doc ''g.pdf'' ''eta'' (Some (3 / 10)),
       scored_doc ''d.pdf'' ''delta'' (Some (2 / 10))]"
    by (simp add: sorted_docs_def py_sorted_reverse_def seven_docs_def scored_doc_def score_of_def
        exact_arith_def)
  have sel: "selected_docs exact_arith seven_docs =
      [scored_doc ''b.pdf'' ''beta'' (Some (9 / 10)), scored_doc ''e.pdf'' ''epsilon'' (Some (9 / 10)),
       scored_doc ''c.pdf'' ''gamma'' None, scored_doc ''f.pdf'' ''zeta'' (Some (1 / 2)),
       scored_doc ''a.pdf'' ''alpha'' (Some (4 / 10))]"
    by (simp add: selected_docs_def filtered_docs_def srt max_docs_def scored_doc_def
        score_of_def ops)
  show ?thesis
    using get_enhanced_context_ranks_filters_caps [OF ne, of exact_arith seven_docs] ne
    by (simp add: srt sel scored_doc_def citation_def source_of_def page_of_def score_of_def
        ops upt_conv_Cons)
qed

section \<open>Query orchestration\<close>

text \<open>
  C5. For a query that is empty, consists of whitespace only, or is longer than 2000
  characters, \<open>process_query\<close> yields exactly one fragment, the validation error, calls
  neither the retriever nor the model, takes nothing from a stream, and leaves the memory
  manager (every buffer, the focus, its log) exactly as it was.
\<close>

theorem process_query_rejects_invalid:
  assumes "query = [] \<or> strip query = [] \<or> length query > 2000"
  shows "fragments (process_query A env chain query chat_id s) =
           [''Invalid query: '' @ (if strip query = [] then ''Empty query'' else ''Query too long'')] \<and>
         effects (process_query A env chain query chat_id s) = [] \<and>
         taken_from_stream (process_query A env chain query chat_id s) = 0 \<and>
         mm (process_query A env chain query chat_id s) = s"
proof -
  have e: "query = [] \<Longrightarrow> strip query = []" by (simp add: strip_def)
  show ?thesis
    using assms e by (auto simp: process_query_def validate_query_def)
qed

theorem process_query_rejects_invalid_witness:
  "strip '' '' = [] \<and>
   fragments (process_query exact_arith no_retrieval True '' '' (Some ''a'') focused_state) =
     [''Invalid query: Empty query''] \<and>
   effects (process_query exact_arith no_retrieval True '' '' (Some ''a'') focused_state) = [] \<and>
   mm (process_query exact_arith no_retrieval True '' '' (Some ''a'') focused_state) =
     focused_state \<and>
   length (replicate 2001 CHR ''x'') > 2000 \<and>
   fragments (process_query exact_arith no_retrieval True (replicate 2001 CHR ''x'') (Some ''a'')
      focused_state) = [''Invalid query: Query too long''] \<and>
   mm (process_query exact_arith no_retrieval True (replicate 2001 CHR ''x'') (Some ''a'')
      focused_state) = focused_state"
proof -
  have b: "strip '' '' = []" by (simp add: strip_def is_space_def)
  have l: "length (replicate 2001 CHR ''x'') > 2000" by simp
  have "CHR ''x'' \<in> set (replicate 2001 CHR ''x'')" by simp
  have nb: "strip (replicate 2001 CHR ''x'') \<noteq> []"
    by (simp add: strip_def is_space_def dropWhile_replicate)
  show ?thesis
    using process_query_rejects_invalid [of "'' ''" exact_arith no_retrieval True "Some ''a''"
        focused_state]
      process_query_rejects_invalid [of "replicate 2001 CHR ''x''" exact_arith no_retrieval True
        "Some ''a''" focused_state] b l nb
    by simp
qed









end
